theory Spec2Isabelle
  imports Main "HOL-Library.AList"
begin

section \<open>JavaScript strings\<close>

text \<open>
  A string is the list of its code units; the model covers the code units below 256
  (ASCII and Latin-1), which is what \<^typ>\<open>char\<close> holds.
\<close>

definition LF :: char where "LF = CHR 0x0A"
definition CR :: char where "CR = CHR 0x0D"
definition dquote :: char where "dquote = CHR 0x22"
definition squote :: char where "squote = CHR 0x27"
definition backslash :: char where "backslash = CHR 0x5C"

text \<open>The characters \<^verbatim>\<open>String.prototype.trim\<close> removes: WhiteSpace and LineTerminator,
  here TAB, LF, VT, FF, CR, SP and NBSP.\<close>

definition is_ws :: "char \<Rightarrow> bool" where
  "is_ws c = (c = CHR 0x09 \<or> c = CHR 0x0A \<or> c = CHR 0x0B \<or> c = CHR 0x0C \<or> c = CHR 0x0D
      \<or> c = CHR 0x20 \<or> c = CHR 0xA0)"

definition trim :: "string \<Rightarrow> string" where
  "trim s = rev (dropWhile is_ws (rev (dropWhile is_ws s)))"

text \<open>The character class \<^verbatim>\<open>[\r\n]\<close>.\<close>

definition is_eol :: "char \<Rightarrow> bool" where
  "is_eol c = (c = CR \<or> c = LF)"

text \<open>\<^verbatim>\<open>s.split(/[\r\n]+/)\<close>: every maximal run of CR and LF is one separator; a
  separator at the start or at the end leaves an empty piece there, and the empty string
  gives one empty piece.\<close>

function split_eol :: "string \<Rightarrow> string list" where
  "split_eol [] = [[]]"
| "split_eol (c # cs) =
     (if is_eol c then [] # split_eol (dropWhile is_eol cs)
      else (case split_eol cs of [] \<Rightarrow> [[c]] | p # ps \<Rightarrow> (c # p) # ps))"
  by pat_completeness auto
termination
  by (relation "measure length") (auto simp: less_Suc_eq_le length_dropWhile_le)

text \<open>\<^verbatim>\<open>s.split(sep)\<close> for a one-character separator: every occurrence separates.\<close>

fun split_on :: "char \<Rightarrow> string \<Rightarrow> string list" where
  "split_on sep [] = [[]]"
| "split_on sep (c # cs) =
     (if c = sep then [] # split_on sep cs
      else (case split_on sep cs of [] \<Rightarrow> [[c]] | p # ps \<Rightarrow> (c # p) # ps))"

fun join_with :: "string \<Rightarrow> string list \<Rightarrow> string" where
  "join_with sep [] = []"
| "join_with sep [x] = x"
| "join_with sep (x # y # ys) = x @ sep @ join_with sep (y # ys)"

definition startsWith :: "string \<Rightarrow> string \<Rightarrow> bool" where
  "startsWith s p = (take (length p) s = p)"

text \<open>\<^verbatim>\<open>toLowerCase\<close> on the code units below 256: A-Z, and the Latin-1 capitals
  U+00C0 to U+00DE without the multiplication sign U+00D7.\<close>

definition lower_char :: "char \<Rightarrow> char" where
  "lower_char c =
     (let n = (of_char c :: nat)
      in if (65 \<le> n \<and> n \<le> 90) \<or> (192 \<le> n \<and> n \<le> 222 \<and> n \<noteq> 215)
         then char_of (n + 32) else c)"

definition toLowerCase :: "string \<Rightarrow> string" where
  "toLowerCase s = map lower_char s"

text \<open>\<^verbatim>\<open>a || b\<close> on a value that is undefined or a string: the empty string is falsy.\<close>

definition js_or :: "string option \<Rightarrow> string \<Rightarrow> string" where
  "js_or a b = (case a of None \<Rightarrow> b | Some s \<Rightarrow> if s = [] then b else s)"

definition truthy :: "string option \<Rightarrow> bool" where
  "truthy a = (case a of None \<Rightarrow> False | Some s \<Rightarrow> s \<noteq> [])"

section \<open>JavaScript objects with string values\<close>

text \<open>
  An object \<^verbatim>\<open>{ [key: string]: string }\<close> created by the literal \<^verbatim>\<open>{}\<close>: its own
  properties in creation order. \<^verbatim>\<open>obj[k] = v\<close> overwrites an own property in place and
  appends a new one, with one exception: for the key \<^verbatim>\<open>__proto__\<close> the assignment runs
  the setter inherited from \<^verbatim>\<open>Object.prototype\<close>, which ignores a value that is
  neither an object nor null, so no property is created.
\<close>

type_synonym js_object = "(string \<times> string) list"

definition obj_set :: "js_object \<Rightarrow> string \<Rightarrow> string \<Rightarrow> js_object" where
  "obj_set obj k v = (if k = ''__proto__'' then obj else AList.update k v obj)"

definition obj_get :: "js_object \<Rightarrow> string \<Rightarrow> string option" where
  "obj_get obj k = map_of obj k"

text \<open>\<^verbatim>\<open>Object.entries\<close>: the keys that are array indices (canonical decimal numerals
  below \<open>2^32 - 1\<close>) come first, in ascending numeric order, then the other keys in
  creation order.\<close>

definition is_digit :: "char \<Rightarrow> bool" where
  "is_digit c = (48 \<le> (of_char c :: nat) \<and> (of_char c :: nat) \<le> 57)"

definition num_of :: "string \<Rightarrow> nat" where
  "num_of s = foldl (\<lambda>n c. 10 * n + ((of_char c :: nat) - 48)) 0 s"

definition is_array_index :: "string \<Rightarrow> bool" where
  "is_array_index k =
     (k \<noteq> [] \<and> list_all is_digit k \<and> (k = ''0'' \<or> hd k \<noteq> CHR ''0'') \<and> num_of k < 4294967295)"

definition entries :: "js_object \<Rightarrow> (string \<times> string) list" where
  "entries obj =
     sort_key (\<lambda>kv. num_of (fst kv)) (filter (\<lambda>kv. is_array_index (fst kv)) obj)
     @ filter (\<lambda>kv. \<not> is_array_index (fst kv)) obj"

section \<open>The host: Node's library, the operating system and the editor\<close>

text \<open>
  Everything the extension reads from outside is a field of the host: the platform and
  the functions of Node's \<^verbatim>\<open>path\<close> module (library code, taken as parameters), the
  home directory, the outcome of running a shell command, the file system, the open
  workspace folders and the three settings of \<^verbatim>\<open>micromamba-envs\<close>.
\<close>

datatype exec_result =
    ExecError string string  \<comment> \<open>\<^verbatim>\<open>err.message\<close> and the captured stderr\<close>
  | ExecOk string            \<comment> \<open>the captured stdout\<close>

record host =
  win32 :: bool
  path_normalize :: "string \<Rightarrow> string"
  path_basename :: "string \<Rightarrow> string"
  path_join :: "string list \<Rightarrow> string"
  path_relative :: "string \<Rightarrow> string \<Rightarrow> string"
  path_sep :: char
  homedir :: string
  exec :: "string \<Rightarrow> exec_result"
  existsSync :: "string \<Rightarrow> bool"
  readFileSync :: "string \<Rightarrow> string"
  writeFile_fails :: "string \<Rightarrow> bool"
  python_update_fails :: bool
  workspaceFolders :: "string list option"
  cfg_rootPrefix :: "string option"
  cfg_micromambaBinary :: "string option"
  cfg_environmentsTxtPath :: "string option"

section \<open>The extension's state\<close>

record MambaConfig =
  rootPrefix :: string
  exe :: string
  envTxtPath :: string

record MicromambaEnvItem =
  label :: string
  description :: string
  envPath :: string

text \<open>
  The module variables and the editor objects the extension writes:
  \<^verbatim>\<open>cachedMambaConfig\<close>, the status bar item, the terminal's
  \<^verbatim>\<open>environmentVariableCollection\<close>, the files written, the workspace state key
  \<^verbatim>\<open>currentMicromambaEnvPath\<close>, the setting \<^verbatim>\<open>python.defaultInterpreterPath\<close> and
  the error messages shown. \<open>exec_log\<close> records every command handed to
  \<^verbatim>\<open>cp.exec\<close>.
\<close>

record ext_state =
  cachedMambaConfig :: "MambaConfig option"
  statusBarText :: string
  statusBarTooltip :: string
  envCollection :: "string \<rightharpoonup> string"
  files :: "string \<rightharpoonup> string"
  currentMicromambaEnvPath :: "string option"
  defaultInterpreterPath :: "string option"
  errorMessages :: "string list"
  exec_log :: "string list"

section \<open>Configuration: \<^verbatim>\<open>fetchMambaVarsFromShell\<close> and \<^verbatim>\<open>getMambaConfig\<close>\<close>

definition fetch_command :: "host \<Rightarrow> string" where
  "fetch_command h =
     (if win32 h
      then ''powershell -Command '' @ [dquote] @ ''echo $env:MAMBA_ROOT_PREFIX; echo $env:MAMBA_EXE'' @ [dquote]
      else ''bash -l -c '' @ [dquote] @ ''echo $MAMBA_ROOT_PREFIX; echo $MAMBA_EXE'' @ [dquote])"

text \<open>The promise of \<^verbatim>\<open>fetchMambaVarsFromShell\<close>: rejected with the error (\<open>Inl\<close>), or
  resolved with the two values read from the first two lines of stdout.\<close>

definition fetchMambaVarsFromShell :: "host \<Rightarrow> string + (string \<times> string)" where
  "fetchMambaVarsFromShell h =
     (case exec h (fetch_command h) of
        ExecError msg err \<Rightarrow> Inl msg
      | ExecOk stdout \<Rightarrow>
          (let lines = split_eol (trim stdout)
           in Inr (case lines of [] \<Rightarrow> [] | l0 # _ \<Rightarrow> (if l0 \<noteq> [] then trim l0 else []),
                   case lines of l0 # l1 # _ \<Rightarrow> (if l1 \<noteq> [] then trim l1 else []) | _ \<Rightarrow> [])))"

text \<open>
  \<^verbatim>\<open>getMambaConfig\<close> is an async function. A call runs at once up to
  \<^verbatim>\<open>await fetchMambaVarsFromShell()\<close>, where the shell has been started, and runs its
  rest when the shell has answered; other calls may run in between. A call that finds the
  cache filled, or needs no shell, never reaches the await and returns at once.
  \<open>pending_config\<close> holds the locals \<^verbatim>\<open>rootPrefix\<close>, \<^verbatim>\<open>exe\<close> and \<^verbatim>\<open>envTxtPath\<close> of a
  call waiting at the await.
\<close>

record pending_config =
  pending_rootPrefix :: string
  pending_exe :: string
  pending_envTxtPath :: string

datatype config_call = Returned MambaConfig | Awaiting pending_config

text \<open>The end of the function: the fallback for \<^verbatim>\<open>exe\<close>, the write to the cache, the
  return.\<close>

definition getMambaConfig_finish ::
  "string \<Rightarrow> string \<Rightarrow> string \<Rightarrow> ext_state \<Rightarrow> MambaConfig \<times> ext_state" where
  "getMambaConfig_finish rootPrefix1 exe1 envTxtPath1 st =
     (let exe2 = (if exe1 = [] then ''micromamba'' else exe1);
          result = \<lparr>rootPrefix = rootPrefix1, exe = exe2, envTxtPath = envTxtPath1\<rparr>
      in (result, st\<lparr>cachedMambaConfig := Some result\<rparr>))"

text \<open>The function up to the await (or to its end, when the await is not reached).\<close>

definition getMambaConfig_begin :: "host \<Rightarrow> ext_state \<Rightarrow> config_call \<times> ext_state" where
  "getMambaConfig_begin h st =
     (case cachedMambaConfig st of
        Some cached \<Rightarrow> (Returned cached, st)
      | None \<Rightarrow>
          (let rootPrefix0 = js_or (cfg_rootPrefix h) [];
               exe0 = js_or (cfg_micromambaBinary h) [];
               envTxtPath0 = js_or (cfg_environmentsTxtPath h) [];
               envTxtPath1 = (if envTxtPath0 = []
                              then path_join h [homedir h, ''.conda'', ''environments.txt'']
                              else envTxtPath0)
           in if rootPrefix0 = [] \<or> exe0 = []
              then (Awaiting \<lparr>pending_rootPrefix = rootPrefix0, pending_exe = exe0,
                              pending_envTxtPath = envTxtPath1\<rparr>,
                    st\<lparr>exec_log := exec_log st @ [fetch_command h]\<rparr>)
              else (let (result, st1) = getMambaConfig_finish rootPrefix0 exe0 envTxtPath1 st
                    in (Returned result, st1))))"

text \<open>The function from the await on, given the outcome of the promise (\<open>Inl\<close>: rejected,
  caught and logged) and the state at that moment.\<close>

definition getMambaConfig_resume ::
  "pending_config \<Rightarrow> string + (string \<times> string) \<Rightarrow> ext_state \<Rightarrow> MambaConfig \<times> ext_state" where
  "getMambaConfig_resume l shellVars st =
     (let rootPrefix1 = (case shellVars of
                           Inr (r, e) \<Rightarrow> if pending_rootPrefix l = [] \<and> r \<noteq> [] then r
                                        else pending_rootPrefix l
                         | Inl _ \<Rightarrow> pending_rootPrefix l);
          exe1 = (case shellVars of
                    Inr (r, e) \<Rightarrow> if pending_exe l = [] \<and> e \<noteq> [] then e else pending_exe l
                  | Inl _ \<Rightarrow> pending_exe l)
      in getMambaConfig_finish rootPrefix1 exe1 (pending_envTxtPath l) st)"

text \<open>A call that no other call overlaps: nothing happens between its two parts.\<close>

definition getMambaConfig :: "host \<Rightarrow> ext_state \<Rightarrow> MambaConfig \<times> ext_state" where
  "getMambaConfig h st =
     (case getMambaConfig_begin h st of
        (Returned c, st1) \<Rightarrow> (c, st1)
      | (Awaiting l, st1) \<Rightarrow> getMambaConfig_resume l (fetchMambaVarsFromShell h) st1)"

text \<open>Two calls that overlap, as when the command is invoked twice while the first shell
  is still running: the first call starts on host \<open>h1\<close>, the second on host \<open>h2\<close> (the
  settings may have been edited in between), then the first shell answers, a further call
  is made, the second shell answers, and a last call is made. The result is what the
  further call and the last call return, and the commands executed.\<close>

definition two_overlapping_calls ::
  "host \<Rightarrow> host \<Rightarrow> ext_state \<Rightarrow> (MambaConfig \<times> MambaConfig \<times> string list) option" where
  "two_overlapping_calls h1 h2 st =
     (case getMambaConfig_begin h1 st of
        (Returned c, s1) \<Rightarrow> None
      | (Awaiting l1, s1) \<Rightarrow>
          (case getMambaConfig_begin h2 s1 of
             (Returned c, s2) \<Rightarrow> None
           | (Awaiting l2, s2) \<Rightarrow>
               (let (c1, s3) = getMambaConfig_resume l1 (fetchMambaVarsFromShell h1) s2;
                    (r1, s4) = getMambaConfig h2 s3;
                    (c2, s5) = getMambaConfig_resume l2 (fetchMambaVarsFromShell h2) s4;
                    (r2, s6) = getMambaConfig h2 s5
                in Some (r1, r2, exec_log s6))))"

section \<open>\<^verbatim>\<open>normalize\<close>\<close>

definition normalize :: "host \<Rightarrow> string \<Rightarrow> string" where
  "normalize h raw_path =
     (let norm_path = path_normalize h raw_path
      in if win32 h then toLowerCase norm_path else norm_path)"

section \<open>\<^verbatim>\<open>selectEnvironment\<close>\<close>

text \<open>Step 2, the lines of \<^verbatim>\<open>environments.txt\<close>:
  \<^verbatim>\<open>content.split(/[\r\n]+/).filter(line => line.trim() !== '')\<close>.\<close>

definition registry_lines :: "string \<Rightarrow> string list" where
  "registry_lines content = filter (\<lambda>line. trim line \<noteq> []) (split_eol content)"

text \<open>The three variables the \<^verbatim>\<open>forEach\<close> over the lines updates.\<close>

record groups =
  workspaceItems :: "MicromambaEnvItem list"
  rootItems :: "MicromambaEnvItem list"
  activeItem :: "MicromambaEnvItem option"

text \<open>The body of the \<^verbatim>\<open>forEach\<close>. \<open>cwp\<close> is \<^verbatim>\<open>currentWorkspacePath\<close> (\<open>None\<close> for
  null), \<open>cap\<close> is \<^verbatim>\<open>currentActivePath\<close> and \<open>nrp\<close> is \<^verbatim>\<open>normalizedRootPrefix\<close>.
  The two tests of the classification are named; the empty string is falsy in
  \<^verbatim>\<open>currentWorkspacePath && ...\<close> and in \<^verbatim>\<open>normalizedRootPrefix && ...\<close>.\<close>

definition isWorkspaceEnv :: "string option \<Rightarrow> string \<Rightarrow> bool" where
  "isWorkspaceEnv cwp normalizedPath =
     (case cwp of None \<Rightarrow> False | Some w \<Rightarrow> w \<noteq> [] \<and> startsWith normalizedPath w)"

definition isRootEnv :: "string \<Rightarrow> string \<Rightarrow> bool" where
  "isRootEnv nrp normalizedPath = (nrp \<noteq> [] \<and> startsWith normalizedPath nrp)"

definition make_item :: "host \<Rightarrow> string option \<Rightarrow> string \<Rightarrow> string \<Rightarrow> MicromambaEnvItem" where
  "make_item h cwp cap line =
     (let normalizedPath = normalize h line;
          name = path_basename h normalizedPath;
          isActive = (cap = normalizedPath);
          icon = (if isWorkspaceEnv cwp normalizedPath then ''$(project)'' else ''$(globe)'')
      in if isActive
         then \<lparr>label = ''$(check) '' @ icon @ '' '' @ name,
               description = ''(Active) '' @ normalizedPath,
               envPath = normalizedPath\<rparr>
         else \<lparr>label = icon @ '' '' @ name,
               description = normalizedPath,
               envPath = normalizedPath\<rparr>)"

definition classify_step ::
  "host \<Rightarrow> string option \<Rightarrow> string \<Rightarrow> string \<Rightarrow> groups \<Rightarrow> string \<Rightarrow> groups" where
  "classify_step h cwp cap nrp g line =
     (let normalizedPath = normalize h line;
          item = make_item h cwp cap line;
          g1 = (if cap = normalizedPath then g\<lparr>activeItem := Some item\<rparr> else g)
      in if isWorkspaceEnv cwp normalizedPath
         then g1\<lparr>workspaceItems := workspaceItems g1 @ [item]\<rparr>
         else if isRootEnv nrp normalizedPath
              then g1\<lparr>rootItems := rootItems g1 @ [item]\<rparr>
         else g1)"

definition currentActivePath :: "host \<Rightarrow> string option \<Rightarrow> string" where
  "currentActivePath h storedPath =
     (case storedPath of None \<Rightarrow> []
      | Some s \<Rightarrow> if s \<noteq> [] then normalize h s else [])"

definition normalizedRootPrefix :: "host \<Rightarrow> string \<Rightarrow> string" where
  "normalizedRootPrefix h rp = (if rp \<noteq> [] then normalize h rp else [])"

text \<open>Step 3: the classification of the lines, given the first workspace folder (if
  any), the stored active path and the configured root prefix.\<close>

definition classify ::
  "host \<Rightarrow> string option \<Rightarrow> string option \<Rightarrow> string \<Rightarrow> string list \<Rightarrow> groups" where
  "classify h folder storedPath rp lines =
     foldl (classify_step h (map_option (normalize h) folder)
                            (currentActivePath h storedPath) (normalizedRootPrefix h rp))
           \<lparr>workspaceItems = [], rootItems = [], activeItem = None\<rparr> lines"

text \<open>An item is shown as active when its label carries the check mark.\<close>

definition marked_active :: "MicromambaEnvItem \<Rightarrow> bool" where
  "marked_active it = startsWith (label it) ''$(check) ''"

datatype picker_item = Separator string | Item MicromambaEnvItem

definition pickerItems :: "groups \<Rightarrow> picker_item list" where
  "pickerItems g =
     (if workspaceItems g \<noteq> []
      then Separator ''Workspace Environments'' # map Item (workspaceItems g) else [])
     @ (if rootItems g \<noteq> []
        then Separator ''Root / Global Environments'' # map Item (rootItems g) else [])"

datatype select_outcome =
    ShowErrorMessage string
  | ShowInformationMessage string
  | ShowQuickPick "picker_item list" "MicromambaEnvItem option" string
  | Thrown

text \<open>\<^verbatim>\<open>selectEnvironment\<close> up to \<^verbatim>\<open>quickPick.show()\<close>: the message or the picker shown
  (with its items, the highlighted item and the executable handed to the accept handler).
  An empty array of workspace folders makes \<^verbatim>\<open>workspaceFolders[0].uri\<close> throw.\<close>

definition selectEnvironment :: "host \<Rightarrow> ext_state \<Rightarrow> select_outcome \<times> ext_state" where
  "selectEnvironment h st =
     (let (config, st1) = getMambaConfig h st
      in if \<not> existsSync h (envTxtPath config)
         then (ShowErrorMessage (''File not found: '' @ envTxtPath config), st1)
         else
           (let lines = registry_lines (readFileSync h (envTxtPath config))
            in case workspaceFolders h of
                 Some [] \<Rightarrow> (Thrown, st1)
               | folders \<Rightarrow>
                  (let g = classify h (map_option hd folders) (currentMicromambaEnvPath st1)
                                    (rootPrefix config) lines
                   in if pickerItems g = []
                      then (ShowInformationMessage
                              ''No matching environments found in workspace or root prefix.'', st1)
                      else (ShowQuickPick (pickerItems g) (activeItem g) (exe config), st1))))"

section \<open>\<^verbatim>\<open>parseEnvOutput\<close> and \<^verbatim>\<open>writeEnvFile\<close>\<close>

text \<open>The body of the \<^verbatim>\<open>forEach\<close> of \<^verbatim>\<open>parseEnvOutput\<close>: \<^verbatim>\<open>indexOf('=')\<close> is the first
  \<^verbatim>\<open>=\<close>, the key is what stands before it and the value what stands after it, both trimmed.\<close>

definition line_key :: "string \<Rightarrow> string" where
  "line_key line = trim (takeWhile (\<lambda>c. c \<noteq> CHR ''='') line)"

definition line_value :: "string \<Rightarrow> string" where
  "line_value line = trim (drop 1 (dropWhile (\<lambda>c. c \<noteq> CHR ''='') line))"

definition parse_line :: "js_object \<Rightarrow> string \<Rightarrow> js_object" where
  "parse_line envs line =
     (if line = [] \<or> CHR ''='' \<notin> set line then envs
      else obj_set envs (line_key line) (line_value line))"

definition parseEnvOutput :: "string \<Rightarrow> js_object" where
  "parseEnvOutput output = foldl parse_line [] (split_eol output)"

text \<open>\<^verbatim>\<open>value.replace(/"/g, '\\"')\<close>: a backslash before every double quote.\<close>

definition escape_quotes :: "string \<Rightarrow> string" where
  "escape_quotes v = concat (map (\<lambda>c. if c = dquote then [backslash, dquote] else [c]) v)"

text \<open>The text \<^verbatim>\<open>writeEnvFile\<close> builds from \<^verbatim>\<open>Object.entries(envs)\<close>.\<close>

definition env_file_content :: "(string \<times> string) list \<Rightarrow> string" where
  "env_file_content es =
     concat (map (\<lambda>kv. fst kv @ ''='' @ [dquote] @ escape_quotes (snd kv) @ [dquote] @ [LF]) es)"

text \<open>\<^verbatim>\<open>fs.writeFile\<close> replaces the file's content; when it fails the error is logged
  and the file is left as it was.\<close>

definition writeEnvFile :: "host \<Rightarrow> string \<Rightarrow> js_object \<Rightarrow> ext_state \<Rightarrow> ext_state" where
  "writeEnvFile h filepath envs st =
     (if writeFile_fails h filepath then st
      else st\<lparr>files := (files st)(filepath \<mapsto> env_file_content (entries envs))\<rparr>)"

section \<open>\<^verbatim>\<open>setEnvironment\<close>\<close>

definition choose_binary :: "host \<Rightarrow> ext_state \<Rightarrow> string option \<Rightarrow> string" where
  "choose_binary h st manualExe =
     (if truthy manualExe then js_or manualExe ''micromamba''
      else (case cachedMambaConfig st of
              Some cached \<Rightarrow> exe cached
            | None \<Rightarrow> js_or (cfg_micromambaBinary h) ''micromamba''))"

definition shellCommand :: "host \<Rightarrow> string \<Rightarrow> string \<Rightarrow> string" where
  "shellCommand h binary p =
     (if win32 h
      then ''powershell -Command '' @ [dquote]
           @ binary @ '' run -p '' @ [squote] @ p @ [squote] @ '' cmd /c set'' @ [dquote]
      else ''bash -c '' @ [dquote]
           @ binary @ '' run -p '' @ [squote] @ p @ [squote] @ '' env'' @ [dquote])"

text \<open>"Fix missing variables for Terminal prompt": \<^verbatim>\<open>!envVars[k]\<close> holds for a key that
  is missing and for a key whose value is the empty string.\<close>

definition applyDefaults :: "host \<Rightarrow> string \<Rightarrow> js_object \<Rightarrow> js_object" where
  "applyDefaults h p envVars =
     (let envNameDisplay = path_basename h p;
          e1 = (if \<not> truthy (obj_get envVars ''CONDA_DEFAULT_ENV'')
                then obj_set envVars ''CONDA_DEFAULT_ENV'' envNameDisplay else envVars)
      in if \<not> truthy (obj_get e1 ''CONDA_PREFIX'') then obj_set e1 ''CONDA_PREFIX'' p else e1)"

text \<open>Step 3 of the callback, the UI update.\<close>

definition ui_update :: "host \<Rightarrow> string \<Rightarrow> ext_state \<Rightarrow> ext_state" where
  "ui_update h p st =
     st\<lparr>currentMicromambaEnvPath := Some p,
        statusBarText := ''$(check) '' @ path_basename h p,
        statusBarTooltip := ''Active Env: '' @ p\<rparr>"

definition finalPath :: "host \<Rightarrow> string \<Rightarrow> string \<Rightarrow> string" where
  "finalPath h rootPath pythonPath =
     (if startsWith (normalize h pythonPath) (normalize h rootPath)
      then ''${workspaceFolder}/''
           @ map (\<lambda>c. if c = path_sep h then CHR ''/'' else c) (path_relative h rootPath pythonPath)
      else pythonPath)"

text \<open>The callback of \<^verbatim>\<open>cp.exec\<close> when the subprocess succeeded. It stops early, with
  the effects made so far, when \<^verbatim>\<open>workspaceFolders[0]\<close> throws on an empty array or
  when the update of the Python setting is rejected.\<close>

definition on_success :: "host \<Rightarrow> ext_state \<Rightarrow> string \<Rightarrow> string \<Rightarrow> ext_state" where
  "on_success h st p stdout =
     (let envVars = applyDefaults h p (parseEnvOutput stdout);
          st1 = st\<lparr>envCollection :=
                     foldl (\<lambda>m kv. m(fst kv \<mapsto> snd kv)) Map.empty (entries envVars)\<rparr>
      in case workspaceFolders h of
           None \<Rightarrow> ui_update h p st1
         | Some [] \<Rightarrow> st1
         | Some (rootPath # _) \<Rightarrow>
             (let st2 = writeEnvFile h (path_join h [rootPath, ''.env'']) envVars st1;
                  prefix = js_or (obj_get envVars ''CONDA_PREFIX'') p;
                  pythonPath = (if win32 h then path_join h [prefix, ''python.exe'']
                                else path_join h [prefix, ''bin'', ''python''])
              in if existsSync h pythonPath
                 then (if python_update_fails h then st2
                       else ui_update h p
                              (st2\<lparr>defaultInterpreterPath := Some (finalPath h rootPath pythonPath)\<rparr>))
                 else ui_update h p st2))"

definition setEnvironment :: "host \<Rightarrow> ext_state \<Rightarrow> string \<Rightarrow> string option \<Rightarrow> ext_state" where
  "setEnvironment h st p manualExe =
     (let binary = choose_binary h st manualExe;
          cmd = shellCommand h binary p;
          st1 = st\<lparr>statusBarText := ''$(sync~spin) Micromamba: '' @ path_basename h p @ ''...'',
                   exec_log := exec_log st @ [cmd]\<rparr>
      in case exec h cmd of
           ExecError msg err \<Rightarrow>
             st1\<lparr>statusBarText := ''$(error) Micromamba: Error'',
                 errorMessages := errorMessages st1 @ [''Error loading env: '' @ js_or (Some err) msg]\<rparr>
         | ExecOk stdout \<Rightarrow> on_success h st1 p stdout)"

section \<open>A reader of the \<^verbatim>\<open>.env\<close> file\<close>





section \<open>Registry files as lines and line endings\<close>

text \<open>A registry file seen as its lines: each line of \<open>es\<close> comes with the line ending
  that follows it, and \<open>lst\<close> is what stands after the last line ending.\<close>

definition no_eol :: "string \<Rightarrow> bool" where
  "no_eol e = list_all (\<lambda>c. \<not> is_eol c) e"

definition line_ending :: "string \<Rightarrow> bool" where
  "line_ending sep = (sep \<noteq> [] \<and> list_all is_eol sep)"

definition join_lines :: "(string \<times> string) list \<Rightarrow> string \<Rightarrow> string" where
  "join_lines es lst = concat (map (\<lambda>el. fst el @ snd el) es) @ lst"

definition well_formed_lines :: "(string \<times> string) list \<Rightarrow> bool" where
  "well_formed_lines es = list_all (\<lambda>el. no_eol (fst el) \<and> line_ending (snd el)) es"

section \<open>Sample hosts\<close>

text \<open>
  Concrete hosts on which the model runs. The POSIX host follows Node's
  \<^verbatim>\<open>path.posix\<close>: \<^verbatim>\<open>normalize\<close> drops empty and \<^verbatim>\<open>.\<close> segments, resolves \<^verbatim>\<open>..\<close>
  against the segment before it and keeps a trailing slash; \<^verbatim>\<open>basename\<close> is the last
  segment, trailing slashes ignored.
\<close>

definition normalize_step :: "bool \<Rightarrow> string list \<Rightarrow> string \<Rightarrow> string list" where
  "normalize_step allowAboveRoot res seg =
     (if seg = [] \<or> seg = ''.'' then res
      else if seg = ''..''
           then (if res \<noteq> [] \<and> last res \<noteq> ''..'' then butlast res
                 else if allowAboveRoot then res @ [''..''] else res)
      else res @ [seg])"

definition posix_normalize :: "string \<Rightarrow> string" where
  "posix_normalize p =
     (if p = [] then ''.''
      else (let isAbsolute = (hd p = CHR ''/'');
                trailingSeparator = (last p = CHR ''/'');
                s = join_with ''/'' (foldl (normalize_step (\<not> isAbsolute)) [] (split_on (CHR ''/'') p))
            in if s = [] then (if isAbsolute then ''/'' else if trailingSeparator then ''./'' else ''.'')
               else (if isAbsolute then ''/'' else []) @ s @ (if trailingSeparator then ''/'' else [])))"

definition posix_basename :: "string \<Rightarrow> string" where
  "posix_basename p =
     rev (takeWhile (\<lambda>c. c \<noteq> CHR ''/'') (dropWhile (\<lambda>c. c = CHR ''/'') (rev p)))"

definition posix_join :: "string list \<Rightarrow> string" where
  "posix_join parts =
     (let joined = join_with ''/'' (filter (\<lambda>s. s \<noteq> []) parts)
      in if joined = [] then ''.'' else posix_normalize joined)"

fun strip_common :: "string list \<Rightarrow> string list \<Rightarrow> string list \<times> string list" where
  "strip_common (x # xs) (y # ys) = (if x = y then strip_common xs ys else (x # xs, y # ys))"
| "strip_common xs ys = (xs, ys)"

definition posix_relative :: "string \<Rightarrow> string \<Rightarrow> string" where
  "posix_relative from to =
     (let segs = (\<lambda>p. filter (\<lambda>s. s \<noteq> []) (split_on (CHR ''/'') (posix_normalize p)));
          (fs, ts) = strip_common (segs from) (segs to)
      in join_with ''/'' (replicate (length fs) ''..'' @ ts))"

definition sample_posix :: host where
  "sample_posix =
     \<lparr>win32 = False, path_normalize = posix_normalize, path_basename = posix_basename,
      path_join = posix_join, path_relative = posix_relative, path_sep = CHR ''/'',
      homedir = ''/home/u'',
      exec = (\<lambda>cmd. ExecError ''Command failed'' ''micromamba: command not found''),
      existsSync = (\<lambda>p. False), readFileSync = (\<lambda>p. []),
      writeFile_fails = (\<lambda>p. False), python_update_fails = False,
      workspaceFolders = Some [''/home/u/proj''],
      cfg_rootPrefix = Some ''/opt/micromamba'', cfg_micromambaBinary = None,
      cfg_environmentsTxtPath = None\<rparr>"








text \<open>The pieces of a string between the characters that satisfy \<open>isSep\<close>.\<close>

fun split_where :: "(char \<Rightarrow> bool) \<Rightarrow> string \<Rightarrow> string list" where
  "split_where isSep [] = [[]]"
| "split_where isSep (c # cs) =
     (if isSep c then [] # split_where isSep cs
      else (case split_where isSep cs of [] \<Rightarrow> [[c]] | p # ps \<Rightarrow> (c # p) # ps))"

text \<open>\<^verbatim>\<open>normalizeString\<close>: the loop handles one segment at every separator and at the
  end of the path, as \<open>normalize_step\<close> does, and joins what it keeps with
  \<^verbatim>\<open>separator\<close>.\<close>

definition normalizeString :: "string \<Rightarrow> bool \<Rightarrow> string \<Rightarrow> (char \<Rightarrow> bool) \<Rightarrow> string" where
  "normalizeString path allowAboveRoot separator isSep =
     join_with separator (foldl (normalize_step allowAboveRoot) [] (split_where isSep path))"







text \<open>Two hosts for overlapping configuration calls: no root prefix and no executable
  are set and the shell prints both; on the second host the user has set the executable
  in the meantime.\<close>

definition shell_host :: host where
  "shell_host =
     sample_posix\<lparr>cfg_rootPrefix := None,
                  exec := (\<lambda>cmd. ExecOk (''/opt/micromamba'' @ [LF] @ ''/usr/bin/micromamba'' @ [LF]))\<rparr>"

definition edited_host :: host where
  "edited_host = shell_host\<lparr>cfg_micromambaBinary := Some ''/usr/local/bin/micromamba''\<rparr>"

definition initial_state :: ext_state where
  "initial_state =
     \<lparr>cachedMambaConfig = None, statusBarText = [], statusBarTooltip = [],
      envCollection = Map.empty, files = Map.empty, currentMicromambaEnvPath = None,
      defaultInterpreterPath = None, errorMessages = [], exec_log = []\<rparr>"

section \<open>Predicates used in the statements\<close>

text \<open>A mapping the \<^verbatim>\<open>.env\<close> file can hold line by line: no name contains \<^verbatim>\<open>=\<close> or a
  line feed, no value contains a line feed.\<close>

definition writable :: "(string \<times> string) list \<Rightarrow> bool" where
  "writable es =
     list_all (\<lambda>kv. CHR ''='' \<notin> set (fst kv) \<and> LF \<notin> set (fst kv) \<and> LF \<notin> set (snd kv)) es"

text \<open>A string without surrounding whitespace.\<close>

definition trimmed :: "string \<Rightarrow> bool" where
  "trimmed s = (s = [] \<or> (\<not> is_ws (hd s) \<and> \<not> is_ws (last s)))"

text \<open>The name and value of every line of the output that contains \<^verbatim>\<open>=\<close>, in order.\<close>

definition kept_pairs :: "string \<Rightarrow> (string \<times> string) list" where
  "kept_pairs output =
     map (\<lambda>line. (line_key line, line_value line))
       (filter (\<lambda>line. CHR ''='' \<in> set line) (split_eol output))"



text \<open>A state whose three sinks already hold the effects of an earlier activation, and
  the configuration the POSIX host resolves to.\<close>

definition busy_state :: ext_state where
  "busy_state =
     initial_state\<lparr>envCollection := [''OLD'' \<mapsto> ''1''],
                   files := [''/home/u/proj/.env'' \<mapsto> ''OLD=1''],
                   currentMicromambaEnvPath := Some ''/opt/micromamba/envs/old''\<rparr>"

definition cfg0 :: MambaConfig where
  "cfg0 = \<lparr>rootPrefix = ''/opt/micromamba'', exe = ''micromamba'',
           envTxtPath = ''/home/u/.conda/environments.txt''\<rparr>"

section \<open>Objects: lookup after assignment\<close>

lemma map_of_obj_set:
  "map_of (obj_set obj k v) = (if k = ''__proto__'' then map_of obj else (map_of obj)(k \<mapsto> v))"
  by (simp add: obj_set_def update_conv')

lemma distinct_obj_set: "distinct (map fst obj) \<Longrightarrow> distinct (map fst (obj_set obj k v))"
  by (simp add: obj_set_def distinct_update)

section \<open>The POSIX sample: \<^verbatim>\<open>path.posix.normalize\<close> is idempotent\<close>


lemma split_on_not_Nil [simp]: "split_on sep s \<noteq> []"
  by (induction s) (auto split: list.splits)


















section \<open>Activation\<close>

text \<open>
  Claim C1. When the subprocess started by \<^verbatim>\<open>setEnvironment\<close> fails (the callback of
  \<^verbatim>\<open>cp.exec\<close> receives an error: non-zero exit or spawn failure), the terminal variable
  collection, the files and the persisted last-active path are what they were before the
  call; only the status bar shows the error.
\<close>

theorem setEnvironment_failure_atomic:
  assumes "exec h (shellCommand h (choose_binary h st manualExe) p) = ExecError msg err"
  shows "envCollection (setEnvironment h st p manualExe) = envCollection st
       \<and> files (setEnvironment h st p manualExe) = files st
       \<and> currentMicromambaEnvPath (setEnvironment h st p manualExe) = currentMicromambaEnvPath st
       \<and> statusBarText (setEnvironment h st p manualExe) = ''$(error) Micromamba: Error''"
  using assms by (simp add: setEnvironment_def Let_def)

theorem setEnvironment_failure_atomic_witness:
  "exec sample_posix
     (shellCommand sample_posix (choose_binary sample_posix busy_state None)
        ''/opt/micromamba/envs/envA'')
     = ExecError ''Command failed'' ''micromamba: command not found''
   \<and> envCollection (setEnvironment sample_posix busy_state ''/opt/micromamba/envs/envA'' None)
       = [''OLD'' \<mapsto> ''1'']
   \<and> files (setEnvironment sample_posix busy_state ''/opt/micromamba/envs/envA'' None)
       = [''/home/u/proj/.env'' \<mapsto> ''OLD=1'']
   \<and> currentMicromambaEnvPath
        (setEnvironment sample_posix busy_state ''/opt/micromamba/envs/envA'' None)
       = Some ''/opt/micromamba/envs/old''"
proof -
  have e: "exec sample_posix
             (shellCommand sample_posix (choose_binary sample_posix busy_state None)
                ''/opt/micromamba/envs/envA'')
           = ExecError ''Command failed'' ''micromamba: command not found''"
    by (simp add: sample_posix_def)
  from setEnvironment_failure_atomic [OF e] e show ?thesis
    by (simp add: busy_state_def initial_state_def)
qed

text \<open>For contrast, a successful subprocess does reach the sinks (here with no workspace
  folder open, where only the collection and the persisted path are written).\<close>

lemma setEnvironment_success_effects:
  assumes "exec h (shellCommand h (choose_binary h st manualExe) p) = ExecOk out"
      and "workspaceFolders h = None"
  shows "currentMicromambaEnvPath (setEnvironment h st p manualExe) = Some p
       \<and> envCollection (setEnvironment h st p manualExe)
           = foldl (\<lambda>m kv. m(fst kv \<mapsto> snd kv)) Map.empty
               (entries (applyDefaults h p (parseEnvOutput out)))"
  using assms by (simp add: setEnvironment_def on_success_def ui_update_def Let_def)

text \<open>
  Claim C4, as stated, fails: a mapping that has both keys, \<^verbatim>\<open>CONDA_DEFAULT_ENV\<close> with
  the empty string as its value, is not returned unchanged. The test \<^verbatim>\<open>!envVars[k]\<close>
  treats an empty value as a missing one.
\<close>

theorem applyDefaults_empty_value_counterexample:
  "obj_get [(''CONDA_DEFAULT_ENV'', []), (''CONDA_PREFIX'', ''/p'')] ''CONDA_DEFAULT_ENV'' = Some []
   \<and> obj_get [(''CONDA_DEFAULT_ENV'', []), (''CONDA_PREFIX'', ''/p'')] ''CONDA_PREFIX'' = Some ''/p''
   \<and> applyDefaults sample_posix ''/opt/micromamba/envs/envA''
        [(''CONDA_DEFAULT_ENV'', []), (''CONDA_PREFIX'', ''/p'')]
      = [(''CONDA_DEFAULT_ENV'', ''envA''), (''CONDA_PREFIX'', ''/p'')]"
  by (simp add: applyDefaults_def obj_get_def obj_set_def truthy_def sample_posix_def
        posix_basename_def)

text \<open>
  Claim C4, amended. If the parsed mapping lacks \<^verbatim>\<open>CONDA_DEFAULT_ENV\<close> or maps it to
  the empty string, the result maps it to the basename of the selected path; if it lacks
  \<^verbatim>\<open>CONDA_PREFIX\<close> or maps it to the empty string, the result maps it to the selected
  path. When both keys have non-empty values the mapping is returned unchanged. Both keys
  are present in every result, and no other key changes.
\<close>

theorem applyDefaults_defaulting:
  "(\<not> truthy (obj_get envVars ''CONDA_DEFAULT_ENV'')
      \<longrightarrow> obj_get (applyDefaults h p envVars) ''CONDA_DEFAULT_ENV'' = Some (path_basename h p))
   \<and> (\<not> truthy (obj_get envVars ''CONDA_PREFIX'')
      \<longrightarrow> obj_get (applyDefaults h p envVars) ''CONDA_PREFIX'' = Some p)
   \<and> (truthy (obj_get envVars ''CONDA_DEFAULT_ENV'') \<and> truthy (obj_get envVars ''CONDA_PREFIX'')
      \<longrightarrow> applyDefaults h p envVars = envVars)
   \<and> obj_get (applyDefaults h p envVars) ''CONDA_DEFAULT_ENV'' \<noteq> None
   \<and> obj_get (applyDefaults h p envVars) ''CONDA_PREFIX'' \<noteq> None
   \<and> (k \<noteq> ''CONDA_DEFAULT_ENV'' \<and> k \<noteq> ''CONDA_PREFIX''
      \<longrightarrow> obj_get (applyDefaults h p envVars) k = obj_get envVars k)"
  by (auto simp: applyDefaults_def obj_get_def map_of_obj_set truthy_def Let_def
           split: option.splits)

theorem applyDefaults_defaulting_witness:
  "\<not> truthy (obj_get [(''FOO'', ''bar'')] ''CONDA_DEFAULT_ENV'')
   \<and> \<not> truthy (obj_get [(''FOO'', ''bar'')] ''CONDA_PREFIX'')
   \<and> obj_get (applyDefaults sample_posix ''/opt/micromamba/envs/envA'' [(''FOO'', ''bar'')])
        ''CONDA_DEFAULT_ENV'' = Some ''envA''
   \<and> obj_get (applyDefaults sample_posix ''/opt/micromamba/envs/envA'' [(''FOO'', ''bar'')])
        ''CONDA_PREFIX'' = Some ''/opt/micromamba/envs/envA''
   \<and> obj_get (applyDefaults sample_posix ''/opt/micromamba/envs/envA'' [(''FOO'', ''bar'')])
        ''FOO'' = Some ''bar''
   \<and> truthy (obj_get [(''CONDA_DEFAULT_ENV'', ''base''), (''CONDA_PREFIX'', ''/p'')] ''CONDA_DEFAULT_ENV'')
   \<and> truthy (obj_get [(''CONDA_DEFAULT_ENV'', ''base''), (''CONDA_PREFIX'', ''/p'')] ''CONDA_PREFIX'')
   \<and> applyDefaults sample_posix ''/opt/micromamba/envs/envA''
        [(''CONDA_DEFAULT_ENV'', ''base''), (''CONDA_PREFIX'', ''/p'')]
       = [(''CONDA_DEFAULT_ENV'', ''base''), (''CONDA_PREFIX'', ''/p'')]"
  using applyDefaults_defaulting
          [of "[(''FOO'', ''bar'')]" sample_posix "''/opt/micromamba/envs/envA''" "''FOO''"]
        applyDefaults_defaulting
          [of "[(''CONDA_DEFAULT_ENV'', ''base''), (''CONDA_PREFIX'', ''/p'')]" sample_posix
              "''/opt/micromamba/envs/envA''" "''FOO''"]
  by (simp add: obj_get_def truthy_def sample_posix_def posix_basename_def)

section \<open>Configuration\<close>

lemma posix_join_home:
  "posix_join [''/home/u'', ''.conda'', ''environments.txt''] = ''/home/u/.conda/environments.txt''"
  by code_simp

text \<open>The first call on the POSIX host: the shell is needed for the executable, fails,
  and the executable falls back to the literal \<^verbatim>\<open>micromamba\<close>.\<close>

lemma getMambaConfig_first_call:
  "getMambaConfig sample_posix initial_state
     = (cfg0, initial_state\<lparr>cachedMambaConfig := Some cfg0,
                             exec_log := [fetch_command sample_posix]\<rparr>)"
  by (simp add: getMambaConfig_def getMambaConfig_begin_def getMambaConfig_resume_def
        getMambaConfig_finish_def fetchMambaVarsFromShell_def sample_posix_def
        initial_state_def js_or_def cfg0_def posix_join_home Let_def)

text \<open>A call that finds the cache filled returns the cached record at once: it starts no
  shell and changes nothing, whatever the settings are by then.\<close>

lemma getMambaConfig_cache_hit:
  assumes "cachedMambaConfig st = Some c"
  shows "getMambaConfig_begin h st = (Returned c, st) \<and> getMambaConfig h st = (c, st)"
  using assms by (simp add: getMambaConfig_def getMambaConfig_begin_def)

text \<open>Whatever part of the function writes the cache, the executable it stores is not
  empty.\<close>

lemma getMambaConfig_finish_exe:
  "exe (fst (getMambaConfig_finish r e t st)) \<noteq> []
   \<and> (e = [] \<longrightarrow> exe (fst (getMambaConfig_finish r e t st)) = ''micromamba'')
   \<and> cachedMambaConfig (snd (getMambaConfig_finish r e t st))
       = Some (fst (getMambaConfig_finish r e t st))"
  by (simp add: getMambaConfig_finish_def Let_def)

text \<open>Calls that run one after the other, none overlapping another: the record returned
  is in the cache afterwards and every later call returns it and leaves the state as it
  is; a call that finds the cache empty returns a non-empty executable, the literal
  \<^verbatim>\<open>micromamba\<close> when the setting is empty and the shell fails or prints none.\<close>

lemma getMambaConfig_sequential:
  assumes "getMambaConfig h st = (c, st1)"
  shows "cachedMambaConfig st1 = Some c
       \<and> getMambaConfig h' st1 = (c, st1)
       \<and> (cachedMambaConfig st = None \<longrightarrow> exe c \<noteq> [])
       \<and> (cachedMambaConfig st = None \<and> js_or (cfg_micromambaBinary h) [] = []
            \<and> (case fetchMambaVarsFromShell h of Inl e \<Rightarrow> True | Inr re \<Rightarrow> snd re = [])
          \<longrightarrow> exe c = ''micromamba'')"
proof -
  have hit: "cachedMambaConfig st1 = Some c"
    using assms
    by (auto simp: getMambaConfig_def getMambaConfig_begin_def getMambaConfig_resume_def
          getMambaConfig_finish_def Let_def split: option.splits if_splits)
  have later: "getMambaConfig h' st1 = (c, st1)"
    using getMambaConfig_cache_hit [OF hit] by simp
  have exe: "cachedMambaConfig st = None \<longrightarrow> exe c \<noteq> []"
    using assms
    by (auto simp: getMambaConfig_def getMambaConfig_begin_def getMambaConfig_resume_def
          getMambaConfig_finish_def Let_def split: option.splits if_splits sum.splits)
  have fallback: "cachedMambaConfig st = None \<and> js_or (cfg_micromambaBinary h) [] = []
            \<and> (case fetchMambaVarsFromShell h of Inl e \<Rightarrow> True | Inr re \<Rightarrow> snd re = [])
          \<longrightarrow> exe c = ''micromamba''"
    using assms
    by (auto simp: getMambaConfig_def getMambaConfig_begin_def getMambaConfig_resume_def
          getMambaConfig_finish_def Let_def split: option.splits if_splits sum.splits)
  from hit later exe fallback show ?thesis by blast
qed

text \<open>
  Claim C8 fails when two calls overlap. Both find the cache empty and both start the
  shell (the docstring says the shell is executed once). When the first shell answers,
  the cache holds the executable the shell printed, and a further call returns that
  record. When the second shell answers, the second call overwrites the cache with the
  executable of the setting edited in between, and the last call returns this other
  record: two calls made after the cache was first filled return different
  configurations.
\<close>

theorem overlapping_calls_differ:
  "two_overlapping_calls shell_host edited_host initial_state
     = Some (\<lparr>rootPrefix = ''/opt/micromamba'', exe = ''/usr/bin/micromamba'',
               envTxtPath = ''/home/u/.conda/environments.txt''\<rparr>,
             \<lparr>rootPrefix = ''/opt/micromamba'', exe = ''/usr/local/bin/micromamba'',
               envTxtPath = ''/home/u/.conda/environments.txt''\<rparr>,
             [fetch_command shell_host, fetch_command edited_host])"
  by (simp add: two_overlapping_calls_def getMambaConfig_def getMambaConfig_begin_def
        getMambaConfig_resume_def getMambaConfig_finish_def fetchMambaVarsFromShell_def
        shell_host_def edited_host_def sample_posix_def initial_state_def js_or_def
        posix_join_home trim_def is_ws_def is_eol_def LF_def CR_def Let_def)

section \<open>Parsing the subprocess output\<close>

text \<open>What \<^verbatim>\<open>parseEnvOutput\<close> returns, for every output: the names and values are
  trimmed, the names are distinct, and a name other than \<^verbatim>\<open>__proto__\<close> maps to the value
  of the last line that carries it.\<close>

lemma split_eol_pieces: "l \<in> set (split_eol s) \<Longrightarrow> no_eol l"
proof (induction s arbitrary: l rule: split_eol.induct)
  case 1
  then show ?case by (simp add: no_eol_def)
next
  case (2 c cs)
  show ?case
  proof (cases "is_eol c")
    case True
    with 2 show ?thesis by (auto simp: no_eol_def)
  next
    case False
    with 2 show ?thesis
      by (cases "split_eol cs") (auto simp: no_eol_def)
  qed
qed

lemma set_trim: "set (trim s) \<subseteq> set s"
  by (auto simp: trim_def dest!: set_dropWhileD)

lemma trimmed_trim: "trimmed (trim s)"
proof (cases "trim s = []")
  case True
  then show ?thesis by (simp add: trimmed_def)
next
  case False
  define t where "t = dropWhile is_ws s"
  define u where "u = dropWhile is_ws (rev t)"
  have ts: "trim s = rev u" by (simp add: trim_def t_def u_def)
  with False have une: "u \<noteq> []" by simp
  then have hu: "\<not> is_ws (hd u)" unfolding u_def by (rule hd_dropWhile)
  from une have tne: "t \<noteq> []" by (auto simp: u_def)
  then have ht: "\<not> is_ws (hd t)" unfolding t_def by (rule hd_dropWhile)
  obtain pre where "rev t = pre @ u"
    unfolding u_def by (metis takeWhile_dropWhile_id)
  then have "last (rev t) = last u" using une by simp
  then have "last u = hd t" using tne by (simp add: last_rev)
  then have "hd (rev u) = hd t" using une by (simp add: hd_rev)
  moreover have "last (rev u) = hd u" using une by (simp add: last_rev)
  ultimately show ?thesis using hu ht by (simp add: trimmed_def ts)
qed

lemma set_update_subset: "set (AList.update k v al) \<subseteq> insert (k, v) (set al)"
  by (induction al) auto

lemma set_obj_set: "set (obj_set obj k v) \<subseteq> insert (k, v) (set obj)"
  using set_update_subset [of k v obj] by (auto simp: obj_set_def)

lemma set_parse_lines:
  "set (foldl parse_line acc ls)
     \<subseteq> set acc \<union> set (map (\<lambda>l. (line_key l, line_value l)) (filter (\<lambda>l. CHR ''='' \<in> set l) ls))"
proof (induction ls arbitrary: acc)
  case Nil
  show ?case by simp
next
  case (Cons l ls)
  show ?case
    using Cons.IH [of "parse_line acc l"] set_obj_set [of acc "line_key l" "line_value l"]
    by (auto simp: parse_line_def split: if_splits)
qed

lemma set_parseEnvOutput: "set (parseEnvOutput out) \<subseteq> set (kept_pairs out)"
  using set_parse_lines [of "[]" "split_eol out"] by (simp add: parseEnvOutput_def kept_pairs_def)

lemma distinct_parse_lines:
  "distinct (map fst acc) \<Longrightarrow> distinct (map fst (foldl parse_line acc ls))"
  by (induction ls arbitrary: acc) (simp_all add: parse_line_def distinct_obj_set)

lemma distinct_parseEnvOutput: "distinct (map fst (parseEnvOutput out))"
  by (simp add: parseEnvOutput_def distinct_parse_lines)

lemma map_of_parse_line:
  "map_of (parse_line acc l) k =
     (if CHR ''='' \<in> set l \<and> line_key l = k \<and> k \<noteq> ''__proto__''
      then Some (line_value l) else map_of acc k)"
  by (auto simp: parse_line_def map_of_obj_set)

lemma map_of_parse_lines:
  "map_of (foldl parse_line acc ls) k =
     (if k = ''__proto__'' then map_of acc k
      else (case map_of (rev (map (\<lambda>l. (line_key l, line_value l))
                                  (filter (\<lambda>l. CHR ''='' \<in> set l) ls))) k of
              Some v \<Rightarrow> Some v | None \<Rightarrow> map_of acc k))"
proof (induction ls arbitrary: acc)
  case Nil
  show ?case by simp
next
  case (Cons l ls)
  have "map_of (foldl parse_line (parse_line acc l) ls) k =
     (if k = ''__proto__'' then map_of (parse_line acc l) k
      else (case map_of (rev (map (\<lambda>l. (line_key l, line_value l))
                                  (filter (\<lambda>l. CHR ''='' \<in> set l) ls))) k of
              Some v \<Rightarrow> Some v | None \<Rightarrow> map_of (parse_line acc l) k))"
    by (rule Cons.IH)
  then show ?case
    by (auto simp: map_of_parse_line map_add_def split: option.splits)
qed

lemma map_of_parseEnvOutput:
  "map_of (parseEnvOutput out) k =
     (if k = ''__proto__'' then None else map_of (rev (kept_pairs out)) k)"
  using map_of_parse_lines [of "[]" "split_eol out" k]
  by (auto simp: parseEnvOutput_def kept_pairs_def split: option.splits)

lemma kept_pairs_trimmed:
  "kv \<in> set (kept_pairs out) \<Longrightarrow> trimmed (fst kv) \<and> trimmed (snd kv)"
  by (auto simp: kept_pairs_def line_key_def line_value_def trimmed_trim)

lemma kept_pairs_writable: "writable (kept_pairs out)"
proof -
  have "CHR ''='' \<notin> set (line_key l) \<and> LF \<notin> set (line_key l) \<and> LF \<notin> set (line_value l)"
    if "l \<in> set (split_eol out)" for l
  proof -
    from that have n: "LF \<notin> set l"
      using split_eol_pieces [of l out] by (auto simp: no_eol_def list_all_iff is_eol_def)
    have "set (line_key l) \<subseteq> set (takeWhile (\<lambda>c. c \<noteq> CHR ''='') l)"
      unfolding line_key_def by (rule set_trim)
    moreover have "set (line_value l) \<subseteq> set l"
      using set_trim [of "drop 1 (dropWhile (\<lambda>c. c \<noteq> CHR ''='') l)"]
      by (auto simp: line_value_def dest: in_set_dropD set_dropWhileD)
    ultimately show ?thesis using n by (auto dest: set_takeWhileD)
  qed
  then show ?thesis
    by (auto simp: writable_def kept_pairs_def list_all_iff)
qed

lemma parseEnvOutput_trimmed:
  "kv \<in> set (parseEnvOutput out) \<Longrightarrow> trimmed (fst kv) \<and> trimmed (snd kv)"
  using set_parseEnvOutput [of out] kept_pairs_trimmed [of kv out] by blast

lemma parseEnvOutput_writable: "writable (parseEnvOutput out)"
  using set_parseEnvOutput [of out] kept_pairs_writable [of out]
  by (auto simp: writable_def list_all_iff)

text \<open>The spec's scenario.\<close>

lemma parseEnvOutput_scenario:
  "parseEnvOutput (''FOO=bar'' @ [LF] @ ''BAZ=1=2'' @ [LF] @ ''malformed_line'' @ [LF])
     = [(''FOO'', ''bar''), (''BAZ'', ''1=2'')]"
  by (simp add: parseEnvOutput_def parse_line_def obj_set_def line_key_def line_value_def
        trim_def is_ws_def is_eol_def LF_def CR_def)

text \<open>
  Claim C3 fails on a line whose name is \<^verbatim>\<open>__proto__\<close>: the line contains \<^verbatim>\<open>=\<close>, and
  the result has no entry for it. (On every other name the claim holds, see
  \<open>map_of_parseEnvOutput\<close> above.)
\<close>

theorem parseEnvOutput_proto_dropped:
  "CHR ''='' \<in> set ''__proto__=x'' \<and> parseEnvOutput (''__proto__=x'' @ [LF]) = []"
  by (simp add: parseEnvOutput_def parse_line_def obj_set_def line_key_def line_value_def
        trim_def is_ws_def is_eol_def LF_def CR_def)

text \<open>
  Claim C10 fails on the same name: when \<^verbatim>\<open>__proto__\<close> stands on several lines, the
  value of its last occurrence is not in the result, while for the name \<^verbatim>\<open>K\<close> the last
  occurrence wins.
\<close>

theorem parseEnvOutput_proto_last_lost:
  "parseEnvOutput (''__proto__=a'' @ [LF] @ ''__proto__=b'' @ [LF] @ ''K=a'' @ [LF] @ ''K=b'')
     = [(''K'', ''b'')]"
  by (simp add: parseEnvOutput_def parse_line_def obj_set_def line_key_def line_value_def
        trim_def is_ws_def is_eol_def LF_def CR_def)

section \<open>The registry listing\<close>

lemma split_eol_no_eol: "no_eol e \<Longrightarrow> split_eol e = [e]"
  by (induction e) (auto simp: no_eol_def)

lemma split_eol_append_sep:
  "no_eol e \<Longrightarrow> is_eol c \<Longrightarrow> split_eol (e @ c # r) = e # split_eol (dropWhile is_eol r)"
  by (induction e) (auto simp: no_eol_def)

lemma filter_split_eol_dropWhile:
  "filter (\<lambda>l. trim l \<noteq> []) (split_eol (dropWhile is_eol r))
     = filter (\<lambda>l. trim l \<noteq> []) (split_eol r)"
  by (cases r) (auto simp: trim_def)

lemma dropWhile_line_ending:
  "list_all is_eol sep \<Longrightarrow> dropWhile is_eol (sep @ r) = dropWhile is_eol r"
  by (induction sep) auto

lemma registry_lines_cons:
  assumes "no_eol e" "line_ending sep"
  shows "registry_lines (e @ sep @ r) = filter (\<lambda>l. trim l \<noteq> []) [e] @ registry_lines r"
proof -
  from assms(2) obtain c cs where sep: "sep = c # cs" and c: "is_eol c" and cs: "list_all is_eol cs"
    by (cases sep) (auto simp: line_ending_def)
  have "split_eol (e @ sep @ r) = e # split_eol (dropWhile is_eol r)"
    using split_eol_append_sep [OF assms(1) c, of "cs @ r"] dropWhile_line_ending [OF cs, of r]
    by (simp add: sep)
  then show ?thesis
    by (simp add: registry_lines_def filter_split_eol_dropWhile)
qed

text \<open>Every file content is a sequence of lines with their line endings, so the
  hypotheses of the next theorem exclude no file.\<close>

lemma every_content_is_lines:
  "\<exists>es lst. well_formed_lines es \<and> no_eol lst \<and> content = join_lines es lst"
proof (induction content rule: length_induct)
  case (1 xs)
  show ?case
  proof (cases "no_eol xs")
    case True
    then show ?thesis
      by (intro exI[of _ "[]"] exI[of _ xs]) (simp add: well_formed_lines_def join_lines_def)
  next
    case False
    define e where "e = takeWhile (\<lambda>c. \<not> is_eol c) xs"
    define r where "r = dropWhile (\<lambda>c. \<not> is_eol c) xs"
    define sep where "sep = takeWhile is_eol r"
    define r' where "r' = dropWhile is_eol r"
    have xs: "xs = e @ sep @ r'"
      by (simp add: e_def r_def sep_def r'_def)
    have rne: "r \<noteq> []"
      using False by (auto simp: r_def no_eol_def list_all_iff)
    then have "is_eol (hd r)"
      unfolding r_def by (metis (mono_tags, lifting) hd_dropWhile)
    then have sne: "sep \<noteq> []"
      using rne by (cases r) (auto simp: sep_def)
    have le: "line_ending sep"
      using sne by (auto simp: line_ending_def sep_def list_all_iff dest: set_takeWhileD)
    have ne: "no_eol e"
      by (auto simp: no_eol_def e_def list_all_iff dest: set_takeWhileD)
    have "length xs = length e + length sep + length r'"
      by (subst xs) simp
    then have "length r' < length xs"
      using sne by simp
    with 1 obtain es lst where "well_formed_lines es" "no_eol lst" "r' = join_lines es lst"
      by blast
    then show ?thesis
      using xs le ne
      by (intro exI[of _ "(e, sep) # es"] exI[of _ lst])
         (simp add: well_formed_lines_def join_lines_def)
  qed
qed

text \<open>
  Claim C5. A registry file is a sequence of lines, each followed by a non-empty run of
  CR and LF in any mixture, and a last line. The listing is these lines in file order
  without the blank ones (empty or whitespace only): nothing else is removed, changed,
  reordered or deduplicated, and no line is checked against the file system.
\<close>

theorem registry_lines_file_order:
  assumes "well_formed_lines es" and "no_eol lst"
  shows "registry_lines (join_lines es lst) = filter (\<lambda>l. trim l \<noteq> []) (map fst es @ [lst])"
  using assms(1)
proof (induction es)
  case Nil
  show ?case
    using assms(2) by (simp add: join_lines_def registry_lines_def split_eol_no_eol)
next
  case (Cons el es)
  then have e: "no_eol (fst el)" and s: "line_ending (snd el)" and w: "well_formed_lines es"
    by (simp_all add: well_formed_lines_def)
  have "join_lines (el # es) lst = fst el @ snd el @ join_lines es lst"
    by (simp add: join_lines_def)
  then show ?case
    using registry_lines_cons [OF e s, of "join_lines es lst"] Cons.IH [OF w] by simp
qed

theorem registry_lines_file_order_witness:
  "well_formed_lines
     [(''/opt/a'', [CR, LF]), ([], [LF]), (''  '', [LF, CR, CR]), (''/opt/a'', [LF])]
   \<and> no_eol '' /no/such dir''
   \<and> registry_lines
        (''/opt/a'' @ [CR, LF] @ [LF] @ ''  '' @ [LF, CR, CR] @ ''/opt/a'' @ [LF]
         @ '' /no/such dir'')
       = [''/opt/a'', ''/opt/a'', '' /no/such dir'']"
proof -
  have w: "well_formed_lines
             [(''/opt/a'', [CR, LF]), ([], [LF]), (''  '', [LF, CR, CR]), (''/opt/a'', [LF])]"
    by (simp add: well_formed_lines_def no_eol_def line_ending_def is_eol_def CR_def LF_def)
  have n: "no_eol '' /no/such dir''"
    by (simp add: no_eol_def is_eol_def CR_def LF_def)
  from registry_lines_file_order [OF w n] w n show ?thesis
    by (simp add: join_lines_def trim_def is_ws_def)
qed

section \<open>Classification\<close>

lemma envPath_make_item [simp]: "envPath (make_item h cwp cap line) = normalize h line"
  by (simp add: make_item_def Let_def)

lemma marked_active_make_item [simp]:
  "marked_active (make_item h cwp cap line) \<longleftrightarrow> cap = normalize h line"
  by (simp add: make_item_def marked_active_def startsWith_def Let_def)

lemma workspaceItems_foldl:
  "workspaceItems (foldl (classify_step h cwp cap nrp) g ls)
     = workspaceItems g
       @ map (make_item h cwp cap) (filter (\<lambda>l. isWorkspaceEnv cwp (normalize h l)) ls)"
  by (induction ls arbitrary: g) (simp_all add: classify_step_def Let_def)

lemma rootItems_foldl:
  "rootItems (foldl (classify_step h cwp cap nrp) g ls)
     = rootItems g
       @ map (make_item h cwp cap)
           (filter (\<lambda>l. \<not> isWorkspaceEnv cwp (normalize h l) \<and> isRootEnv nrp (normalize h l)) ls)"
  by (induction ls arbitrary: g) (simp_all add: classify_step_def Let_def)

lemma workspaceItems_classify:
  "workspaceItems (classify h folder stored rp ls)
     = map (make_item h (map_option (normalize h) folder) (currentActivePath h stored))
         (filter (\<lambda>l. isWorkspaceEnv (map_option (normalize h) folder) (normalize h l)) ls)"
  by (simp add: classify_def workspaceItems_foldl)

lemma rootItems_classify:
  "rootItems (classify h folder stored rp ls)
     = map (make_item h (map_option (normalize h) folder) (currentActivePath h stored))
         (filter (\<lambda>l. \<not> isWorkspaceEnv (map_option (normalize h) folder) (normalize h l)
                      \<and> isRootEnv (normalizedRootPrefix h rp) (normalize h l)) ls)"
  by (simp add: classify_def rootItems_foldl)

text \<open>The two groups never share a path, with or without a workspace folder.\<close>

lemma groups_disjoint:
  "envPath ` set (workspaceItems (classify h folder stored rp ls))
     \<inter> envPath ` set (rootItems (classify h folder stored rp ls)) = {}"
  by (auto simp: workspaceItems_classify rootItems_classify)

lemma posix_normalize_samples:
  "posix_normalize ''/opt/micromamba/envs/a'' = ''/opt/micromamba/envs/a''"
  "posix_normalize ''/opt/micromamba/envs/b'' = ''/opt/micromamba/envs/b''"
  "posix_normalize ''/opt/micromamba'' = ''/opt/micromamba''"
  "posix_normalize ''/home/u/proj'' = ''/home/u/proj''"
  "posix_normalize ''/home/u'' = ''/home/u''"
  "posix_normalize ''/home/u/proj/.conda/envB'' = ''/home/u/proj/.conda/envB''"
  "posix_normalize ''/home/u/other/envC'' = ''/home/u/other/envC''"
  "posix_normalize ''/opt/micromamba/envs/envA'' = ''/opt/micromamba/envs/envA''"
  by code_simp+

text \<open>The spec's scenario: one entry under the workspace root, one under the root prefix,
  no active path stored.\<close>

lemma classify_scenario:
  "classify sample_posix (Some ''/home/u/proj'') None ''/opt/micromamba''
     (registry_lines (''/home/u/proj/.conda/envB'' @ [LF] @ ''/opt/micromamba/envs/envA''))
   = \<lparr>workspaceItems = [\<lparr>label = ''$(project) envB'',
                          description = ''/home/u/proj/.conda/envB'',
                          envPath = ''/home/u/proj/.conda/envB''\<rparr>],
      rootItems = [\<lparr>label = ''$(globe) envA'',
                     description = ''/opt/micromamba/envs/envA'',
                     envPath = ''/opt/micromamba/envs/envA''\<rparr>],
      activeItem = None\<rparr>"
  by (simp add: classify_def classify_step_def make_item_def registry_lines_def normalize_def
        sample_posix_def currentActivePath_def normalizedRootPrefix_def isWorkspaceEnv_def
        isRootEnv_def startsWith_def posix_normalize_samples posix_basename_def trim_def
        is_ws_def is_eol_def LF_def CR_def Let_def)

text \<open>
  Claim C2. With a workspace folder open (its normalized path is not empty: Node's
  \<^verbatim>\<open>path.normalize\<close> never returns the empty string), a registry entry whose normalized
  path starts with the normalized workspace root and with the normalized root prefix is
  in the workspace group and not in the global group; the two groups have no item and no
  path in common.
\<close>

theorem workspace_precedence:
  assumes "normalize h folder \<noteq> []"
      and "e \<in> set ls"
      and "startsWith (normalize h e) (normalize h folder)"
      and "startsWith (normalize h e) (normalize h rp)"
  shows "normalize h e \<in> envPath ` set (workspaceItems (classify h (Some folder) stored rp ls))
       \<and> normalize h e \<notin> envPath ` set (rootItems (classify h (Some folder) stored rp ls))
       \<and> envPath ` set (workspaceItems (classify h (Some folder) stored rp ls))
           \<inter> envPath ` set (rootItems (classify h (Some folder) stored rp ls)) = {}
       \<and> set (workspaceItems (classify h (Some folder) stored rp ls))
           \<inter> set (rootItems (classify h (Some folder) stored rp ls)) = {}"
proof -
  let ?G = "classify h (Some folder) stored rp ls"
  have w: "isWorkspaceEnv (Some (normalize h folder)) (normalize h e)"
    using assms(1,3) by (simp add: isWorkspaceEnv_def)
  have rs: "\<And>x. x \<in> envPath ` set (rootItems ?G)
              \<Longrightarrow> \<not> isWorkspaceEnv (Some (normalize h folder)) x"
    by (auto simp: rootItems_classify)
  have 1: "normalize h e \<in> envPath ` set (workspaceItems ?G)"
    using w assms(2) by (force simp: workspaceItems_classify)
  have 2: "normalize h e \<notin> envPath ` set (rootItems ?G)"
    using w rs by blast
  have 3: "envPath ` set (workspaceItems ?G) \<inter> envPath ` set (rootItems ?G) = {}"
    by (rule groups_disjoint)
  have 4: "set (workspaceItems ?G) \<inter> set (rootItems ?G) = {}"
    using 3 by blast
  from 1 2 3 4 show ?thesis by simp
qed

theorem workspace_precedence_witness:
  "normalize sample_posix ''/home/u/proj'' \<noteq> []
   \<and> ''/home/u/proj/.conda/envB'' \<in> set [''/home/u/proj/.conda/envB'', ''/home/u/other/envC'']
   \<and> startsWith (normalize sample_posix ''/home/u/proj/.conda/envB'')
        (normalize sample_posix ''/home/u/proj'')
   \<and> startsWith (normalize sample_posix ''/home/u/proj/.conda/envB'')
        (normalize sample_posix ''/home/u'')
   \<and> map envPath (workspaceItems (classify sample_posix (Some ''/home/u/proj'') None ''/home/u''
                      [''/home/u/proj/.conda/envB'', ''/home/u/other/envC'']))
       = [''/home/u/proj/.conda/envB'']
   \<and> map envPath (rootItems (classify sample_posix (Some ''/home/u/proj'') None ''/home/u''
                      [''/home/u/proj/.conda/envB'', ''/home/u/other/envC'']))
       = [''/home/u/other/envC'']
   \<and> normalize sample_posix ''/home/u/proj/.conda/envB''
       \<notin> envPath ` set (rootItems (classify sample_posix (Some ''/home/u/proj'') None ''/home/u''
                                    [''/home/u/proj/.conda/envB'', ''/home/u/other/envC'']))"
proof -
  have n: "normalize sample_posix ''/home/u/proj'' = ''/home/u/proj''"
          "normalize sample_posix ''/home/u'' = ''/home/u''"
          "normalize sample_posix ''/home/u/proj/.conda/envB'' = ''/home/u/proj/.conda/envB''"
          "normalize sample_posix ''/home/u/other/envC'' = ''/home/u/other/envC''"
    by (simp_all add: normalize_def sample_posix_def posix_normalize_samples)
  have 1: "normalize sample_posix ''/home/u/proj'' \<noteq> []"
    by (simp add: n)
  have 2: "''/home/u/proj/.conda/envB'' \<in> set [''/home/u/proj/.conda/envB'', ''/home/u/other/envC'']"
    by simp
  have 3: "startsWith (normalize sample_posix ''/home/u/proj/.conda/envB'')
             (normalize sample_posix ''/home/u/proj'')"
    by (simp add: n startsWith_def)
  have 4: "startsWith (normalize sample_posix ''/home/u/proj/.conda/envB'')
             (normalize sample_posix ''/home/u'')"
    by (simp add: n startsWith_def)
  have 5: "map envPath (workspaceItems (classify sample_posix (Some ''/home/u/proj'') None ''/home/u''
                      [''/home/u/proj/.conda/envB'', ''/home/u/other/envC'']))
       = [''/home/u/proj/.conda/envB'']"
    by (simp add: workspaceItems_classify n isWorkspaceEnv_def startsWith_def)
  have 6: "map envPath (rootItems (classify sample_posix (Some ''/home/u/proj'') None ''/home/u''
                      [''/home/u/proj/.conda/envB'', ''/home/u/other/envC'']))
       = [''/home/u/other/envC'']"
    by (simp add: rootItems_classify n isWorkspaceEnv_def isRootEnv_def normalizedRootPrefix_def
          startsWith_def)
  from workspace_precedence [OF 1 2 3 4, of None] 1 2 3 4 5 6 show ?thesis
    by simp
qed

text \<open>
  Claim C6, as stated, fails: the listing does no deduplication, so a registry that names
  the stored active path twice yields two items marked active.
\<close>

theorem two_entries_marked_active:
  "map marked_active
     (rootItems (classify sample_posix (Some ''/home/u/proj'') (Some ''/opt/micromamba/envs/a'')
        ''/opt/micromamba''
        (registry_lines (''/opt/micromamba/envs/a'' @ [LF] @ ''/opt/micromamba/envs/a'' @ [LF]))))
   = [True, True]"
  by (simp add: rootItems_classify registry_lines_def normalize_def sample_posix_def
        currentActivePath_def normalizedRootPrefix_def isWorkspaceEnv_def isRootEnv_def
        startsWith_def posix_normalize_samples trim_def is_ws_def is_eol_def LF_def CR_def)

lemma filter_eq_distinct_le1:
  "distinct (map f xs) \<Longrightarrow> length (filter (\<lambda>x. a = f x) xs) \<le> Suc 0"
  by (induction xs) (auto simp: filter_empty_conv image_iff)

lemma length_filter_two:
  "length (filter (\<lambda>x. A x \<and> W x) xs) + length (filter (\<lambda>x. A x \<and> \<not> W x \<and> R x) xs)
     \<le> length (filter A xs)"
  by (induction xs) auto

text \<open>
  Claim C6, amended. With a non-empty stored active path, an item of the listing is
  marked active iff its normalized path equals the normalized stored path; so all marked
  items carry that one path, and at most one item is marked when the normalized registry
  entries are pairwise distinct.
\<close>

theorem active_marking:
  assumes "s \<noteq> []"
  shows "(it \<in> set (workspaceItems (classify h folder (Some s) rp ls)
                   @ rootItems (classify h folder (Some s) rp ls))
          \<longrightarrow> (marked_active it \<longleftrightarrow> envPath it = normalize h s))
       \<and> (distinct (map (normalize h) ls)
          \<longrightarrow> length (filter marked_active
                        (workspaceItems (classify h folder (Some s) rp ls)
                         @ rootItems (classify h folder (Some s) rp ls))) \<le> 1)"
proof -
  have cap: "currentActivePath h (Some s) = normalize h s"
    using assms by (simp add: currentActivePath_def)
  have a: "it \<in> set (workspaceItems (classify h folder (Some s) rp ls)
                   @ rootItems (classify h folder (Some s) rp ls))
          \<longrightarrow> (marked_active it \<longleftrightarrow> envPath it = normalize h s)"
    by (auto simp: workspaceItems_classify rootItems_classify cap)
  have b: "distinct (map (normalize h) ls)
          \<longrightarrow> length (filter marked_active
                        (workspaceItems (classify h folder (Some s) rp ls)
                         @ rootItems (classify h folder (Some s) rp ls))) \<le> 1"
  proof
    assume d: "distinct (map (normalize h) ls)"
    let ?A = "\<lambda>l. normalize h s = normalize h l"
    let ?W = "\<lambda>l. isWorkspaceEnv (map_option (normalize h) folder) (normalize h l)"
    let ?R = "\<lambda>l. isRootEnv (normalizedRootPrefix h rp) (normalize h l)"
    have "length (filter marked_active
                        (workspaceItems (classify h folder (Some s) rp ls)
                         @ rootItems (classify h folder (Some s) rp ls)))
          = length (filter (\<lambda>l. ?A l \<and> ?W l) ls)
            + length (filter (\<lambda>l. ?A l \<and> \<not> ?W l \<and> ?R l) ls)"
      by (simp add: workspaceItems_classify rootItems_classify cap filter_map o_def
            conj_commute conj_left_commute)
    also have "\<dots> \<le> length (filter ?A ls)"
      by (rule length_filter_two)
    also have "\<dots> \<le> Suc 0"
      using d by (rule filter_eq_distinct_le1)
    finally show "length (filter marked_active
                        (workspaceItems (classify h folder (Some s) rp ls)
                         @ rootItems (classify h folder (Some s) rp ls))) \<le> 1"
      by simp
  qed
  from a b show ?thesis by simp
qed

theorem active_marking_witness:
  "''/opt/micromamba/envs/a'' \<noteq> []
   \<and> \<lparr>label = ''$(check) $(globe) a'', description = ''(Active) /opt/micromamba/envs/a'',
       envPath = ''/opt/micromamba/envs/a''\<rparr>
       \<in> set (workspaceItems (classify sample_posix (Some ''/home/u/proj'')
                  (Some ''/opt/micromamba/envs/a'') ''/opt/micromamba''
                  [''/opt/micromamba/envs/a'', ''/opt/micromamba/envs/b''])
               @ rootItems (classify sample_posix (Some ''/home/u/proj'')
                  (Some ''/opt/micromamba/envs/a'') ''/opt/micromamba''
                  [''/opt/micromamba/envs/a'', ''/opt/micromamba/envs/b'']))
   \<and> marked_active \<lparr>label = ''$(check) $(globe) a'',
                      description = ''(Active) /opt/micromamba/envs/a'',
                      envPath = ''/opt/micromamba/envs/a''\<rparr>
   \<and> distinct (map (normalize sample_posix) [''/opt/micromamba/envs/a'', ''/opt/micromamba/envs/b''])
   \<and> length (filter marked_active
        (workspaceItems (classify sample_posix (Some ''/home/u/proj'')
                  (Some ''/opt/micromamba/envs/a'') ''/opt/micromamba''
                  [''/opt/micromamba/envs/a'', ''/opt/micromamba/envs/b''])
         @ rootItems (classify sample_posix (Some ''/home/u/proj'')
                  (Some ''/opt/micromamba/envs/a'') ''/opt/micromamba''
                  [''/opt/micromamba/envs/a'', ''/opt/micromamba/envs/b'']))) \<le> 1"
proof -
  let ?it = "\<lparr>label = ''$(check) $(globe) a'', description = ''(Active) /opt/micromamba/envs/a'',
              envPath = ''/opt/micromamba/envs/a''\<rparr>"
  let ?G = "classify sample_posix (Some ''/home/u/proj'') (Some ''/opt/micromamba/envs/a'')
              ''/opt/micromamba'' [''/opt/micromamba/envs/a'', ''/opt/micromamba/envs/b'']"
  have 1: "''/opt/micromamba/envs/a'' \<noteq> []"
    by simp
  have 2: "?it \<in> set (workspaceItems ?G @ rootItems ?G)"
    by (simp add: workspaceItems_classify rootItems_classify make_item_def normalize_def
          sample_posix_def currentActivePath_def normalizedRootPrefix_def isWorkspaceEnv_def
          isRootEnv_def startsWith_def posix_normalize_samples posix_basename_def Let_def)
  have 3: "distinct (map (normalize sample_posix)
                      [''/opt/micromamba/envs/a'', ''/opt/micromamba/envs/b''])"
    by (simp add: normalize_def sample_posix_def posix_normalize_samples)
  have 5: "marked_active ?it"
    by (simp add: marked_active_def startsWith_def)
  have 6: "length (filter marked_active (workspaceItems ?G @ rootItems ?G)) \<le> 1"
    using active_marking [OF 1, of ?it sample_posix "Some ''/home/u/proj''" "''/opt/micromamba''"
                            "[''/opt/micromamba/envs/a'', ''/opt/micromamba/envs/b'']"] 3
    by blast
  from 1 2 3 5 6 show ?thesis by blast
qed

section \<open>Path normalization\<close>

lemma of_char_lower_char:
  "(of_char (lower_char c) :: nat) =
     (if (65 \<le> (of_char c :: nat) \<and> (of_char c :: nat) \<le> 90)
         \<or> (192 \<le> (of_char c :: nat) \<and> (of_char c :: nat) \<le> 222 \<and> (of_char c :: nat) \<noteq> 215)
      then of_char c + 32 else of_char c)"
  by (auto simp: lower_char_def Let_def)

lemma lower_char_idem: "lower_char (lower_char c) = lower_char c"
proof -
  have "of_char c < (256::nat)" by simp
  then show ?thesis
    by (auto simp: lower_char_def Let_def)
qed

lemma toLowerCase_idem: "toLowerCase (toLowerCase s) = toLowerCase s"
  by (simp add: toLowerCase_def lower_char_idem)

lemma split_where_eq_split_on: "split_where (\<lambda>c. c = sep) s = split_on sep s"
  by (induction s) simp_all

text \<open>The POSIX function written as in \<^verbatim>\<open>lib/path.js\<close>, with \<^verbatim>\<open>normalizeString\<close>.\<close>

lemma posix_normalize_normalizeString:
  "posix_normalize p =
     (if p = [] then ''.''
      else (let isAbsolute = (hd p = CHR ''/'');
                trailingSeparator = (last p = CHR ''/'');
                s = normalizeString p (\<not> isAbsolute) ''/'' (\<lambda>c. c = CHR ''/'')
            in if s = [] then (if isAbsolute then ''/'' else if trailingSeparator then ''./'' else ''.'')
               else (if isAbsolute then ''/'' else []) @ s @ (if trailingSeparator then ''/'' else [])))"
  by (simp add: posix_normalize_def normalizeString_def split_where_eq_split_on)




section \<open>The \<^verbatim>\<open>.env\<close> file\<close>


















end
